theory Spec2Isabelle
  imports Main "HOL-Library.Word" "HOL-Library.Signed_Division"
begin

section \<open>Single-precision floating point\<close>

text \<open>
  The sensor readings, averages and thresholds of \<^verbatim>\<open>cpp_span_visit_concept.cpp\<close> are
  C++ \<^verbatim>\<open>float\<close> values: IEEE 754 binary32 with round-to-nearest-even. A finite value is
  \<open>Finite s m e\<close>, standing for \<open>(-1)^s * m * 2^e\<close> with \<open>0 \<le> m < 2^24\<close> and
  \<open>-149 \<le> e \<le> 104\<close>, where \<open>2^23 \<le> m\<close> unless \<open>e = -149\<close> (zero and the subnormal
  numbers); so every finite value has one representation. \<open>Infinity s\<close> is the signed
  infinity. All NaN bit patterns are the one value \<open>NaN\<close>: the program never looks at a
  payload.
\<close>

datatype float = Finite bool int int | Infinity bool | NaN

text \<open>The number of binary digits of a positive integer.\<close>

function bitlen :: "int \<Rightarrow> int" where
  "bitlen n = (if n \<le> 0 then 0 else 1 + bitlen (n div 2))"
  by pat_completeness auto
termination
  by (relation "measure nat") auto

declare bitlen.simps [simp del]

text \<open>\<open>\<lfloor>log\<^sub>2 (n / d)\<rfloor>\<close> for positive \<open>n\<close> and \<open>d\<close>.\<close>

definition ilog2_ratio :: "int \<Rightarrow> int \<Rightarrow> int" where
  "ilog2_ratio n d =
     (let l = bitlen n - bitlen d
      in if (if 0 \<le> l then d * 2 ^ nat l \<le> n else d \<le> n * 2 ^ nat (- l)) then l else l - 1)"

text \<open>\<open>n / d\<close> rounded to the nearest integer, a tie going to the even one.\<close>

definition rne_div :: "int \<Rightarrow> int \<Rightarrow> int" where
  "rne_div n d =
     (let q = n div d; r = n mod d
      in if 2 * r < d then q else if d < 2 * r then q + 1 else if even q then q else q + 1)"

text \<open>
  The binary32 value nearest to \<open>(-1)^s * (n / d) * 2^e\<close>, for \<open>0 \<le> n\<close> and \<open>0 < d\<close>:
  the exponent that leaves 24 significant bits (not below \<open>-149\<close>), the significand
  rounded there, a carry out of the significand renormalised, and overflow to infinity.
\<close>

definition round_float :: "bool \<Rightarrow> int \<Rightarrow> int \<Rightarrow> int \<Rightarrow> float" where
  "round_float s n d e =
     (if n = 0 then Finite s 0 (- 149)
      else
        let x = max (ilog2_ratio n d + e - 23) (- 149);
            m = (if x \<le> e then rne_div (n * 2 ^ nat (e - x)) d
                 else rne_div n (d * 2 ^ nat (x - e)));
            x' = (if m = 2 ^ 24 then x + 1 else x);
            m' = (if m = 2 ^ 24 then 2 ^ 23 else m)
        in if 104 < x' then Infinity s else Finite s m' x')"

definition with_sign :: "bool \<Rightarrow> int \<Rightarrow> int" where
  "with_sign s m = (if s then - m else m)"

fun fadd :: "float \<Rightarrow> float \<Rightarrow> float" where
  "fadd NaN _ = NaN"
| "fadd _ NaN = NaN"
| "fadd (Infinity s) (Infinity t) = (if s = t then Infinity s else NaN)"
| "fadd (Infinity s) (Finite _ _ _) = Infinity s"
| "fadd (Finite _ _ _) (Infinity t) = Infinity t"
| "fadd (Finite s1 m1 e1) (Finite s2 m2 e2) =
     (let e = min e1 e2;
          i = with_sign s1 (m1 * 2 ^ nat (e1 - e)) + with_sign s2 (m2 * 2 ^ nat (e2 - e))
      in if i = 0 then Finite (s1 \<and> s2) 0 (- 149)
         else round_float (i < 0) \<bar>i\<bar> 1 e)"

fun fmul :: "float \<Rightarrow> float \<Rightarrow> float" where
  "fmul NaN _ = NaN"
| "fmul _ NaN = NaN"
| "fmul (Infinity s) (Infinity t) = Infinity (s \<noteq> t)"
| "fmul (Infinity s) (Finite t m _) = (if m = 0 then NaN else Infinity (s \<noteq> t))"
| "fmul (Finite s m _) (Infinity t) = (if m = 0 then NaN else Infinity (s \<noteq> t))"
| "fmul (Finite s1 m1 e1) (Finite s2 m2 e2) = round_float (s1 \<noteq> s2) (m1 * m2) 1 (e1 + e2)"

fun fdiv :: "float \<Rightarrow> float \<Rightarrow> float" where
  "fdiv NaN _ = NaN"
| "fdiv _ NaN = NaN"
| "fdiv (Infinity _) (Infinity _) = NaN"
| "fdiv (Infinity s) (Finite t _ _) = Infinity (s \<noteq> t)"
| "fdiv (Finite s _ _) (Infinity t) = Finite (s \<noteq> t) 0 (- 149)"
| "fdiv (Finite s1 m1 e1) (Finite s2 m2 e2) =
     (if m2 = 0 then (if m1 = 0 then NaN else Infinity (s1 \<noteq> s2))
      else round_float (s1 \<noteq> s2) m1 m2 (e1 - e2))"

text \<open>The comparison \<^verbatim>\<open>a < b\<close>: false as soon as one side is NaN.\<close>

fun flt :: "float \<Rightarrow> float \<Rightarrow> bool" where
  "flt NaN _ = False"
| "flt _ NaN = False"
| "flt (Infinity s) (Infinity t) = (s \<and> \<not> t)"
| "flt (Infinity s) (Finite _ _ _) = s"
| "flt (Finite _ _ _) (Infinity t) = (\<not> t)"
| "flt (Finite s1 m1 e1) (Finite s2 m2 e2) =
     (let e = min e1 e2
      in with_sign s1 (m1 * 2 ^ nat (e1 - e)) < with_sign s2 (m2 * 2 ^ nat (e2 - e)))"

text \<open>The comparison \<^verbatim>\<open>a > b\<close>.\<close>

definition fgt :: "float \<Rightarrow> float \<Rightarrow> bool" where
  "fgt a b = flt b a"

text \<open>Conversion of an \<^verbatim>\<open>int\<close> and of a \<^verbatim>\<open>size_t\<close> to \<^verbatim>\<open>float\<close>.\<close>

definition float_of_int :: "int \<Rightarrow> float" where
  "float_of_int i = round_float (i < 0) \<bar>i\<bar> 1 0"

definition float_of_size :: "32 word \<Rightarrow> float" where
  "float_of_size n = round_float False (uint n) 1 0"

text \<open>
  A decimal literal with the suffix \<^verbatim>\<open>f\<close>: \<open>float_lit n d\<close> is the binary32 value nearest
  to \<open>n / d\<close>, so \<^verbatim>\<open>22.5f\<close> is \<open>float_lit 225 10\<close>.
\<close>

definition float_lit :: "int \<Rightarrow> int \<Rightarrow> float" where
  "float_lit n d = round_float False n d 0"

text \<open>\<^verbatim>\<open>std::numeric_limits<float>::max()\<close> and \<^verbatim>\<open>lowest()\<close>.\<close>

definition float_max :: float where
  "float_max = Finite False (2 ^ 24 - 1) 104"

definition float_lowest :: float where
  "float_lowest = Finite True (2 ^ 24 - 1) 104"

text \<open>\<^verbatim>\<open>std::min(a, b)\<close> is \<^verbatim>\<open>(b < a) ? b : a\<close>, \<^verbatim>\<open>std::max(a, b)\<close> is \<^verbatim>\<open>(a < b) ? b : a\<close>.\<close>

definition std_min :: "float \<Rightarrow> float \<Rightarrow> float" where
  "std_min a b = (if flt b a then b else a)"

definition std_max :: "float \<Rightarrow> float \<Rightarrow> float" where
  "std_max a b = (if flt a b then b else a)"


section \<open>The state variant\<close>

datatype StateId = IDLE | MONITORING | ALERT | CALIBRATING

text \<open>
  The four alternatives of \<^verbatim>\<open>StateVariant\<close>, with the fields of their structs in
  declaration order: \<open>MonitoringState average_value sample_count\<close>,
  \<open>AlertState message threshold\<close>, \<open>CalibratingState reference_value calibration_step\<close>.
  The two counters are \<^verbatim>\<open>int\<close>: 32-bit words read as two's complement (\<open>sint\<close>, \<open><s\<close>).
\<close>

datatype StateVariant =
    IdleState
  | MonitoringState float "32 word"
  | AlertState string float
  | CalibratingState float "32 word"

text \<open>\<^verbatim>\<open>std::variant::index()\<close>: the position of the live alternative.\<close>

fun variant_index :: "StateVariant \<Rightarrow> nat" where
  "variant_index IdleState = 0"
| "variant_index (MonitoringState _ _) = 1"
| "variant_index (AlertState _ _) = 2"
| "variant_index (CalibratingState _ _) = 3"

text \<open>\<^verbatim>\<open>static_cast<StateId>\<close> of an index: the enumerators count from zero.\<close>

definition StateId_of_index :: "nat \<Rightarrow> StateId" where
  "StateId_of_index i =
     (if i = 0 then IDLE else if i = 1 then MONITORING else if i = 2 then ALERT else CALIBRATING)"


section \<open>The state machine\<close>

text \<open>
  \<^verbatim>\<open>buffer_index_\<close> is a \<^verbatim>\<open>size_t\<close>, 32 bits wide on the ESP32 targets this
  code is built for; it counts every stored reading and wraps around.
  \<^verbatim>\<open>sensor_buffer_\<close> is a \<^verbatim>\<open>std::array<float, 10>\<close>: a list that keeps the length
  \<open>buffer_size\<close>. The members are named here without their trailing underscore.
\<close>

record StateMachine =
  current_state :: StateVariant
  current_id :: StateId
  sensor_buffer :: "float list"
  buffer_index :: "32 word"

definition buffer_size :: nat where
  "buffer_size = 10"

text \<open>The default member initialisers.\<close>

definition StateMachine_init :: StateMachine where
  "StateMachine_init =
     \<lparr>current_state = IdleState, current_id = IDLE,
      sensor_buffer = replicate buffer_size (float_lit 0 1), buffer_index = 0\<rparr>"

definition get_buffer_index :: "StateMachine \<Rightarrow> 32 word" where
  "get_buffer_index m = buffer_index m"

definition transition_to :: "StateVariant \<Rightarrow> StateMachine \<Rightarrow> StateMachine" where
  "transition_to new_state m =
     m\<lparr>current_state := new_state,
       current_id := StateId_of_index (variant_index new_state)\<rparr>"

definition get_current_state_id :: "StateMachine \<Rightarrow> StateId" where
  "get_current_state_id m = current_id m"

text \<open>
  \<^verbatim>\<open>process_sensors\<close>, first half: when the pack of readings is not empty, the first
  reading goes to the slot \<^verbatim>\<open>buffer_index_ % sensor_buffer_.size()\<close> and the index is
  incremented.
\<close>

definition store_reading :: "float list \<Rightarrow> StateMachine \<Rightarrow> StateMachine" where
  "store_reading readings m =
     (if readings \<noteq> [] then
        m\<lparr>sensor_buffer :=
            (sensor_buffer m)[unat (buffer_index m) mod buffer_size := readings ! 0],
          buffer_index := buffer_index m + 1\<rparr>
      else m)"

text \<open>
  \<^verbatim>\<open>process_sensors\<close>, second half: the visitor over \<^verbatim>\<open>current_state_\<close>. The
  Monitoring and Calibrating branches write the fields of the live alternative in place,
  without going through \<^verbatim>\<open>transition_to\<close>. The sum runs over
  \<^verbatim>\<open>sensor_buffer_ | std::views::take(buffer_index_)\<close>, the first \<^verbatim>\<open>buffer_index_\<close>
  slots and at most all ten, starting from \<^verbatim>\<open>float sum = 0\<close>.
\<close>

definition visit_state :: "float list \<Rightarrow> StateMachine \<Rightarrow> StateMachine" where
  "visit_state readings m =
     (case current_state m of
        IdleState \<Rightarrow>
          if readings \<noteq> [] \<and> fgt (readings ! 0) (float_lit 20 1)
          then transition_to (MonitoringState (readings ! 0) 1) m
          else m
      | MonitoringState average_value sample_count \<Rightarrow>
          let sample_count' = sample_count + 1;
              sum = foldl fadd (float_of_int 0)
                      (take (unat (buffer_index m)) (sensor_buffer m));
              average_value' =
                fdiv sum (float_of_size (min (buffer_index m) (word_of_nat buffer_size)));
              m' = m\<lparr>current_state := MonitoringState average_value' sample_count'\<rparr>
          in if fgt average_value' (float_lit 30 1)
             then transition_to (AlertState ''Temperature High'' (float_lit 30 1)) m'
             else m'
      | AlertState message threshold \<Rightarrow>
          if readings \<noteq> [] \<and> flt (readings ! 0) (float_lit 25 1)
          then transition_to (CalibratingState (float_lit 225 10) 1) m
          else m
      | CalibratingState reference_value calibration_step \<Rightarrow>
          let calibration_step' = calibration_step + 1;
              m' = m\<lparr>current_state := CalibratingState reference_value calibration_step'\<rparr>
          in if 5 <s calibration_step' then transition_to IdleState m' else m')"

definition process_readings :: "float list \<Rightarrow> StateMachine \<Rightarrow> StateMachine" where
  "process_readings readings m = visit_state readings (store_reading readings m)"

text \<open>
  A sensor is anything with a \<^verbatim>\<open>read()\<close>; reading may use and change state outside
  the machine (the library's random number generator), the world \<open>'w\<close>.
  \<^verbatim>\<open>process_sensors\<close> reads every sensor of the pack, in order, into the array
  \<^verbatim>\<open>readings\<close> and then runs the two halves above.
\<close>

type_synonym 'w sensor = "'w \<Rightarrow> float \<times> 'w"

fun read_sensors :: "'w sensor list \<Rightarrow> 'w \<Rightarrow> float list \<times> 'w" where
  "read_sensors [] w = ([], w)"
| "read_sensors (s # ss) w =
     (let (r, w') = s w; (rs, w'') = read_sensors ss w' in (r # rs, w''))"

definition process_sensors :: "'w sensor list \<Rightarrow> StateMachine \<Rightarrow> 'w \<Rightarrow> StateMachine \<times> 'w" where
  "process_sensors sensors m w =
     (let (readings, w') = read_sensors sensors w in (process_readings readings m, w'))"

text \<open>
  \<^verbatim>\<open>get_buffer_stats\<close>: the span \<^verbatim>\<open>active_buffer\<close> is the first
  \<^verbatim>\<open>min(buffer_index_, size)\<close> slots; the first loop of the function has an empty body.
\<close>

definition active_count :: "StateMachine \<Rightarrow> nat" where
  "active_count m = unat (min (buffer_index m) (word_of_nat buffer_size))"

definition active_buffer :: "StateMachine \<Rightarrow> float list" where
  "active_buffer m = take (active_count m) (sensor_buffer m)"

definition get_buffer_stats :: "StateMachine \<Rightarrow> float \<times> float" where
  "get_buffer_stats m =
     (if buffer_index m = 0 then (float_lit 0 1, float_lit 0 1)
      else foldl (\<lambda>(min_val, max_val) val. (std_min min_val val, std_max max_val val))
             (float_max, float_lowest) (active_buffer m))"


section \<open>Sensors and the manager\<close>

text \<open>
  The three sensors call \<^verbatim>\<open>rand()\<close>, which is not part of this code: it is the
  parameter \<open>rand\<close>, a step on the world. \<^verbatim>\<open>%\<close> truncates, as \<open>smod\<close> does. The
  product and the sum are rounded one after the other, in source order.
\<close>

definition TemperatureSensor_read :: "('w \<Rightarrow> int \<times> 'w) \<Rightarrow> 'w sensor" where
  "TemperatureSensor_read rand w =
     (let (r, w') = rand w
      in (fadd (float_lit 235 10) (fmul (float_of_int (r smod 100)) (float_lit 1 100)), w'))"

definition HumiditySensor_read :: "('w \<Rightarrow> int \<times> 'w) \<Rightarrow> 'w sensor" where
  "HumiditySensor_read rand w =
     (let (r, w') = rand w
      in (fadd (float_lit 45 1) (fmul (float_of_int (r smod 100)) (float_lit 2 100)), w'))"

definition PressureSensor_read :: "('w \<Rightarrow> int \<times> 'w) \<Rightarrow> 'w sensor" where
  "PressureSensor_read rand w =
     (let (r, w') = rand w
      in (fadd (float_lit 101325 100) (fmul (float_of_int (r smod 100)) (float_lit 5 100)), w'))"

text \<open>
  The manager owns one state machine; its three sensor objects have no fields.
  \<^verbatim>\<open>update\<close> processes the three sensors and then logs a line, which changes nothing.
\<close>

record StateMachineManager =
  state_machine :: StateMachine

definition StateMachineManager_init :: StateMachineManager where
  "StateMachineManager_init = \<lparr>state_machine = StateMachine_init\<rparr>"

definition manager_sensors :: "('w \<Rightarrow> int \<times> 'w) \<Rightarrow> 'w sensor list" where
  "manager_sensors rand =
     [TemperatureSensor_read rand, HumiditySensor_read rand, PressureSensor_read rand]"

definition update :: "('w \<Rightarrow> int \<times> 'w) \<Rightarrow> StateMachineManager \<Rightarrow> 'w \<Rightarrow> StateMachineManager \<times> 'w" where
  "update rand mgr w =
     (let (m', w') = process_sensors (manager_sensors rand) (state_machine mgr) w
      in (mgr\<lparr>state_machine := m'\<rparr>, w'))"

definition get_state_id :: "StateMachineManager \<Rightarrow> StateId" where
  "get_state_id mgr = get_current_state_id (state_machine mgr)"


section \<open>Runs, and the statistics the specification names\<close>

text \<open>One call of \<^verbatim>\<open>process_sensors\<close> per reading, with a pack of one sensor.\<close>

definition feed :: "float list \<Rightarrow> StateMachine \<Rightarrow> StateMachine" where
  "feed rs m = foldl (\<lambda>m r. process_readings [r] m) m rs"

text \<open>The state after each reading of such a run.\<close>

fun state_trace :: "float list \<Rightarrow> StateMachine \<Rightarrow> StateVariant list" where
  "state_trace [] m = []"
| "state_trace (r # rs) m =
     (let m' = process_readings [r] m in current_state m' # state_trace rs m')"

text \<open>
  A run of \<^verbatim>\<open>process_sensors\<close> over a sequence of sensor packs, threading the world,
  and the readings the sensors return during such a run.
\<close>

fun run_sensors :: "'w sensor list list \<Rightarrow> StateMachine \<Rightarrow> 'w \<Rightarrow> StateMachine \<times> 'w" where
  "run_sensors [] m w = (m, w)"
| "run_sensors (t # ts) m w = (let (m', w') = process_sensors t m w in run_sensors ts m' w')"

fun readings_of :: "'w sensor list list \<Rightarrow> 'w \<Rightarrow> float list list" where
  "readings_of [] w = []"
| "readings_of (t # ts) w = (let (rs, w') = read_sensors t w in rs # readings_of ts w')"

text \<open>A sensor that returns a given reading and leaves the world alone.\<close>

definition constant_sensor :: "float \<Rightarrow> 'w sensor" where
  "constant_sensor r w = (r, w)"

text \<open>
  \<open>n\<close> calls of \<^verbatim>\<open>StateMachineManager::update\<close>, and the readings of the three sources
  during these calls, one list of three per call.
\<close>

fun run_updates ::
  "('w \<Rightarrow> int \<times> 'w) \<Rightarrow> nat \<Rightarrow> StateMachineManager \<Rightarrow> 'w \<Rightarrow> StateMachineManager \<times> 'w" where
  "run_updates rand 0 mgr w = (mgr, w)"
| "run_updates rand (Suc n) mgr w =
     (let (mgr', w') = update rand mgr w in run_updates rand n mgr' w')"

fun source_readings :: "('w \<Rightarrow> int \<times> 'w) \<Rightarrow> nat \<Rightarrow> 'w \<Rightarrow> float list list" where
  "source_readings rand 0 w = []"
| "source_readings rand (Suc n) w =
     (let (rs, w') = read_sensors (manager_sensors rand) w in rs # source_readings rand n w')"

text \<open>
  A random number generator that replays a script: the world is the list of numbers still
  to come. It instantiates \<open>rand\<close> where a concrete run is needed.
\<close>

definition scripted_rand :: "int list \<Rightarrow> int \<times> int list" where
  "scripted_rand w = (case w of [] \<Rightarrow> (0, []) | x # xs \<Rightarrow> (x, xs))"

text \<open>
  The \<^verbatim>\<open>average()\<close> of the specification: the sum of the active entries divided by
  the active count. \<open>average_of\<close> is the same for a plain list of readings.
\<close>

definition buffer_average :: "StateMachine \<Rightarrow> float" where
  "buffer_average m =
     fdiv (foldl fadd (float_lit 0 1) (active_buffer m)) (float_of_int (int (active_count m)))"

definition average_of :: "float list \<Rightarrow> float" where
  "average_of xs = fdiv (foldl fadd (float_lit 0 1) xs) (float_of_int (int (length xs)))"

text \<open>
  The \<^verbatim>\<open>min_max()\<close> of the specification: it fails with \<open>EmptyBufferError\<close> when no
  entry is active, and is the pair of the smallest and the largest active entry otherwise.
\<close>

datatype error = EmptyBufferError

definition spec_min_max :: "StateMachine \<Rightarrow> error + float \<times> float" where
  "spec_min_max m =
     (case active_buffer m of
        [] \<Rightarrow> Inl EmptyBufferError
      | x # xs \<Rightarrow> Inr (foldl std_min x xs, foldl std_max x xs))"

text \<open>
  The public operations that change a machine, and a sequence of them applied to a
  machine. \<open>live_alternative_id\<close> is the enumerator that names an alternative.
\<close>

datatype operation = TransitionTo StateVariant | ProcessReadings "float list"

fun apply_operation :: "StateMachine \<Rightarrow> operation \<Rightarrow> StateMachine" where
  "apply_operation m (TransitionTo new_state) = transition_to new_state m"
| "apply_operation m (ProcessReadings readings) = process_readings readings m"

definition run_operations :: "operation list \<Rightarrow> StateMachine \<Rightarrow> StateMachine" where
  "run_operations ops m = foldl apply_operation m ops"

fun live_alternative_id :: "StateVariant \<Rightarrow> StateId" where
  "live_alternative_id IdleState = IDLE"
| "live_alternative_id (MonitoringState _ _) = MONITORING"
| "live_alternative_id (AlertState _ _) = ALERT"
| "live_alternative_id (CalibratingState _ _) = CALIBRATING"

text \<open>The cached id names the live alternative.\<close>

definition id_in_sync :: "StateMachine \<Rightarrow> bool" where
  "id_in_sync m = (current_id m = live_alternative_id (current_state m))"


section \<open>Checks of the floating-point model\<close>

text \<open>
  Known binary32 facts, computed by the model: the values of some literals, ties going
  to the even significand, overflow to infinity, gradual underflow, and the special
  values. A comparison of a value with itself is false, so the thresholds are strict.
\<close>

lemma literal_values:
  "float_lit 20 1 = Finite False 10485760 (- 19)"
  "float_lit 225 10 = Finite False 11796480 (- 19)"
  "float_lit 200001 10000 = Finite False 10485812 (- 19)"
  "float_lit 1 10 = Finite False 13421773 (- 27)"
  "float_lit 1 100 = Finite False 10737418 (- 30)"
  by code_simp+

lemma rounding_to_nearest_even:
  "float_of_int 16777217 = float_of_int 16777216"
  "float_of_int 16777219 = float_of_int 16777220"
  "fadd (float_lit 1 10) (float_lit 2 10) = float_lit 3 10"
  "fdiv (float_lit 1 1) (float_lit 3 1) = Finite False 11184811 (- 25)"
  by code_simp+

lemma overflow_and_underflow:
  "float_of_int (2 ^ 128 - 2 ^ 103 - 1) = float_max"
  "float_of_int (2 ^ 128 - 2 ^ 103) = Infinity False"
  "fadd float_max float_max = Infinity False"
  "fdiv (Finite False 1 (- 149)) (float_lit 2 1) = Finite False 0 (- 149)"
  "fdiv (Finite False 3 (- 149)) (float_lit 2 1) = Finite False 2 (- 149)"
  "fmul (Finite False 8388609 (- 149)) (float_lit 1 2) = Finite False 4194304 (- 149)"
  by code_simp+

lemma special_values:
  "fdiv (float_lit 0 1) (float_lit 0 1) = NaN"
  "fdiv (float_lit 1 1) (float_lit 0 1) = Infinity False"
  "fadd (Infinity False) (Infinity True) = NaN"
  "fmul (Infinity False) (float_lit 0 1) = NaN"
  "fadd (float_lit 1 1) (float_of_int (- 1)) = float_lit 0 1"
  by code_simp+

lemma flt_NaN_right [simp]: "flt x NaN = False"
  by (cases x) simp_all

lemma fadd_NaN_right [simp]: "fadd x NaN = NaN"
  by (cases x) simp_all

lemma foldl_fadd_NaN [simp]: "foldl fadd NaN xs = NaN"
  by (induction xs) simp_all

lemma foldl_fadd_has_NaN: "NaN \<in> set xs \<Longrightarrow> foldl fadd z xs = NaN"
  by (induction xs arbitrary: z) auto

lemma flt_irrefl: "\<not> flt x x"
  by (cases x) simp_all

lemma fgt_irrefl: "\<not> fgt x x"
  by (simp add: fgt_def flt_irrefl)


section \<open>Threshold boundary\<close>

lemma fgt_20_20: "\<not> fgt (float_lit 20 1) (float_lit 20 1)"
  by code_simp

lemma fgt_20_0001: "fgt (float_lit 200001 10000) (float_lit 20 1)"
  by code_simp

lemma process_idle:
  "current_state m = IdleState \<Longrightarrow>
   current_state (process_readings (r # rest) m) =
     (if fgt r (float_lit 20 1) then MonitoringState r 1 else IdleState)"
  by (simp add: process_readings_def visit_state_def store_reading_def transition_to_def)

text \<open>
  C3: in the Idle state a reading of exactly 20.0 leaves the machine Idle, and a reading
  of 20.0001 takes it to Monitoring with that reading as average and a sample count of 1.
\<close>

theorem threshold_boundary:
  "current_state m = IdleState \<Longrightarrow>
   current_state (process_readings (float_lit 20 1 # rest) m) = IdleState \<and>
   current_state (process_readings (float_lit 200001 10000 # rest) m) =
     MonitoringState (float_lit 200001 10000) 1"
  by (simp add: process_idle fgt_20_20 fgt_20_0001)

theorem threshold_boundary_witness:
  "current_state StateMachine_init = IdleState \<and>
   current_state (process_readings [float_lit 20 1] StateMachine_init) = IdleState \<and>
   current_state (process_readings [float_lit 200001 10000] StateMachine_init) =
     MonitoringState (float_lit 200001 10000) 1"
proof -
  have idle: "current_state StateMachine_init = IdleState"
    by (simp add: StateMachine_init_def)
  show ?thesis
    using idle threshold_boundary [OF idle, of "[]"] by simp
qed


section \<open>The cached discriminant\<close>

lemma StateId_of_variant_index: "StateId_of_index (variant_index s) = live_alternative_id s"
  by (cases s) (simp_all add: StateId_of_index_def)

lemma id_in_sync_init: "id_in_sync StateMachine_init"
  by (simp add: id_in_sync_def StateMachine_init_def)

lemma id_in_sync_transition_to: "id_in_sync (transition_to s m)"
  by (simp add: id_in_sync_def transition_to_def StateId_of_variant_index)

lemma id_in_sync_store_reading: "id_in_sync m \<Longrightarrow> id_in_sync (store_reading rs m)"
  by (simp add: id_in_sync_def store_reading_def)

lemma id_in_sync_visit_state: "id_in_sync m \<Longrightarrow> id_in_sync (visit_state rs m)"
proof (cases "current_state m")
  case IdleState
  assume "id_in_sync m"
  with IdleState show ?thesis
    by (simp add: visit_state_def id_in_sync_transition_to)
next
  case (MonitoringState a c)
  assume "id_in_sync m"
  with MonitoringState show ?thesis
    by (simp add: visit_state_def Let_def id_in_sync_transition_to) (simp add: id_in_sync_def)
next
  case (AlertState msg th)
  assume "id_in_sync m"
  with AlertState show ?thesis
    by (simp add: visit_state_def id_in_sync_transition_to)
next
  case (CalibratingState ref step)
  assume "id_in_sync m"
  with CalibratingState show ?thesis
    by (simp add: visit_state_def Let_def id_in_sync_transition_to) (simp add: id_in_sync_def)
qed

lemma id_in_sync_apply_operation: "id_in_sync m \<Longrightarrow> id_in_sync (apply_operation m op)"
  by (cases op)
    (simp_all add: id_in_sync_transition_to process_readings_def
      id_in_sync_visit_state id_in_sync_store_reading)

lemma id_in_sync_run_operations: "id_in_sync m \<Longrightarrow> id_in_sync (run_operations ops m)"
  unfolding run_operations_def
  by (induction ops arbitrary: m) (simp_all add: id_in_sync_apply_operation)

text \<open>
  C10: after any sequence of \<^verbatim>\<open>transition_to\<close> and reading-processing calls on a newly
  constructed machine, \<^verbatim>\<open>get_current_state_id()\<close> is the enumerator of the live
  alternative: IDLE for IdleState, MONITORING for MonitoringState, ALERT for AlertState,
  CALIBRATING for CalibratingState. The in-place writes of the Monitoring and Calibrating
  branches keep the alternative, so the cached id stays right.
\<close>

theorem discriminant_consistent:
  "get_current_state_id (run_operations ops StateMachine_init) =
     live_alternative_id (current_state (run_operations ops StateMachine_init))"
  using id_in_sync_run_operations [OF id_in_sync_init, of ops]
  by (simp add: id_in_sync_def get_current_state_id_def)


section \<open>Facts about the buffer index\<close>

lemma unat_min_word: "unat (min a b) = min (unat a) (unat (b :: 'a::len word))"
  by (simp add: min_def word_le_nat_alt)

lemma word_of_nat_buffer_size: "(word_of_nat buffer_size :: 32 word) = 10"
  by (simp add: buffer_size_def)

lemma active_count_eq: "active_count m = min (unat (buffer_index m)) 10"
  by (simp add: active_count_def unat_min_word word_of_nat_buffer_size)

lemma active_count_zero_iff: "active_count m = 0 \<longleftrightarrow> buffer_index m = 0"
  by (auto simp add: active_count_eq min_def unat_eq_zero split: if_splits)

lemma float_lit_0: "float_lit 0 1 = Finite False 0 (- 149)"
  by (simp add: float_lit_def round_float_def)


section \<open>Statistics of an empty buffer\<close>

text \<open>
  C2, as stated: \<^verbatim>\<open>get_buffer_stats\<close> on a newly constructed machine fails with
  \<open>EmptyBufferError\<close>. The code has no failure: the guard \<^verbatim>\<open>buffer_index_ == 0\<close>
  returns the pair \<open>(0.0, 0.0)\<close>, where the specification's \<open>min_max\<close> fails.
\<close>

theorem empty_buffer_stats_counterexample:
  "spec_min_max StateMachine_init = Inl EmptyBufferError \<and>
   get_buffer_stats StateMachine_init = (Finite False 0 (- 149), Finite False 0 (- 149)) \<and>
   Inr (get_buffer_stats StateMachine_init) \<noteq> spec_min_max StateMachine_init"
  by (simp add: spec_min_max_def active_buffer_def active_count_eq get_buffer_stats_def
      StateMachine_init_def float_lit_0)

text \<open>
  C2, amended: \<^verbatim>\<open>get_buffer_stats\<close> on a machine whose active count is zero, as it is
  before the first reading, returns the pair \<open>(0.0, 0.0)\<close>.
\<close>

theorem empty_buffer_stats_degenerate:
  "active_count m = 0 \<Longrightarrow> get_buffer_stats m = (float_lit 0 1, float_lit 0 1)"
  by (simp add: active_count_zero_iff get_buffer_stats_def)

theorem empty_buffer_stats_degenerate_witness:
  "active_count StateMachine_init = 0 \<and>
   get_buffer_stats StateMachine_init = (float_lit 0 1, float_lit 0 1)"
proof -
  have h: "active_count StateMachine_init = 0"
    by (simp add: active_count_eq StateMachine_init_def)
  show ?thesis
    using h empty_buffer_stats_degenerate [OF h] by simp
qed


section \<open>Determinism\<close>

lemma run_sensors_readings:
  "fst (run_sensors ts m w) = foldl (\<lambda>m rs. process_readings rs m) m (readings_of ts w)"
proof (induction ts arbitrary: m w)
  case Nil
  show ?case by simp
next
  case (Cons t ts)
  obtain rs w' where r: "read_sensors t w = (rs, w')"
    by (cases "read_sensors t w")
  show ?case
    by (simp add: process_sensors_def r Cons.IH)
qed

text \<open>Every sequence of readings is the sequence some sensors return.\<close>

lemma read_constant_sensors: "read_sensors (map constant_sensor rs) w = (rs, w)"
  by (induction rs) (simp_all add: constant_sensor_def)

lemma readings_of_constant_sensors:
  "readings_of (map (map constant_sensor) rss) w = rss"
  by (induction rss) (simp_all add: read_constant_sensors)

text \<open>
  C7: two runs of the processing operation, each from a newly constructed machine, over
  the same sequence of readings end in the same machine: the same state with the same
  fields, the same buffer contents and index. The sensors may differ between the runs
  and so may the world they read from (the random number generator's state): the machine
  depends on the readings alone.
\<close>

theorem process_deterministic:
  "readings_of ts1 w1 = readings_of ts2 w2 \<Longrightarrow>
   fst (run_sensors ts1 StateMachine_init w1) = fst (run_sensors ts2 StateMachine_init w2)"
  by (simp add: run_sensors_readings)

theorem process_deterministic_witness:
  "readings_of [manager_sensors scripted_rand, manager_sensors scripted_rand]
     [5, 1, 2, 7, 3, 4] =
   readings_of [manager_sensors scripted_rand, manager_sensors scripted_rand]
     [105, 201, 302, 207, 103, 1004] \<and>
   fst (run_sensors [manager_sensors scripted_rand, manager_sensors scripted_rand]
          StateMachine_init [5, 1, 2, 7, 3, 4]) =
   fst (run_sensors [manager_sensors scripted_rand, manager_sensors scripted_rand]
          StateMachine_init [105, 201, 302, 207, 103, 1004])"
proof -
  have h: "readings_of [manager_sensors scripted_rand, manager_sensors scripted_rand]
             [5, 1, 2, 7, 3, 4] =
           readings_of [manager_sensors scripted_rand, manager_sensors scripted_rand]
             [105, 201, 302, 207, 103, 1004]"
    by code_simp
  show ?thesis
    using h process_deterministic [OF h] by simp
qed

lemma process_readings_Cons: "process_readings (r # rest) m = process_readings [r] m"
  by (simp add: process_readings_def visit_state_def store_reading_def
      split: StateVariant.split)

lemma read_manager_sensors:
  "\<exists>a b c w'. read_sensors (manager_sensors rand) w = ([a, b, c], w')"
  by (simp add: manager_sensors_def split: prod.split)

lemma run_updates_feed:
  "state_machine (fst (run_updates rand n mgr w)) =
     feed (map hd (source_readings rand n w)) (state_machine mgr)"
proof (induction n arbitrary: mgr w)
  case 0
  show ?case by (simp add: feed_def)
next
  case (Suc n)
  obtain a b c w' where r: "read_sensors (manager_sensors rand) w = ([a, b, c], w')"
    using read_manager_sensors [of rand w] by auto
  have "state_machine (fst (run_updates rand (Suc n) mgr w)) =
        feed (map hd (source_readings rand n w'))
          (process_readings [a] (state_machine mgr))"
    by (simp add: update_def process_sensors_def r Suc.IH process_readings_Cons [of a "[b, c]"])
  then show ?case
    by (simp add: r feed_def)
qed


section \<open>One processed reading, state by state\<close>

lemma float_of_int_0: "float_of_int 0 = float_lit 0 1"
  by (simp add: float_of_int_def float_lit_def)

lemma float_of_size_eq: "float_of_size n = float_of_int (int (unat n))"
  by (simp add: float_of_size_def float_of_int_def)

lemma visit_state_buffer [simp]:
  "sensor_buffer (visit_state rs m) = sensor_buffer m"
  "buffer_index (visit_state rs m) = buffer_index m"
  by (simp_all add: visit_state_def transition_to_def Let_def split: StateVariant.split)

lemma store_reading_state [simp]: "current_state (store_reading rs m) = current_state m"
  by (simp add: store_reading_def)

lemma store_reading_length [simp]:
  "length (sensor_buffer (store_reading rs m)) = length (sensor_buffer m)"
  by (simp add: store_reading_def)

lemma process_readings_buffer:
  "sensor_buffer (process_readings rs m) = sensor_buffer (store_reading rs m)"
  "buffer_index (process_readings rs m) = buffer_index (store_reading rs m)"
  by (simp_all add: process_readings_def)

lemma active_process_readings:
  "active_buffer (process_readings rs m) = active_buffer (store_reading rs m)"
  "active_count (process_readings rs m) = active_count (store_reading rs m)"
  "buffer_average (process_readings rs m) = buffer_average (store_reading rs m)"
  by (simp_all add: buffer_average_def active_buffer_def active_count_def process_readings_buffer)

text \<open>
  The average the Monitoring branch computes, over \<^verbatim>\<open>take(buffer_index_)\<close> and divided
  by \<^verbatim>\<open>min(buffer_index_, size)\<close>, is the average of the active entries.
\<close>

lemma visit_monitoring_average:
  assumes "length (sensor_buffer m) = buffer_size"
  shows "fdiv (foldl fadd (float_of_int 0) (take (unat (buffer_index m)) (sensor_buffer m)))
           (float_of_size (min (buffer_index m) (word_of_nat buffer_size))) = buffer_average m"
proof -
  have "take (unat (buffer_index m)) (sensor_buffer m) = active_buffer m"
    using assms by (simp add: active_buffer_def active_count_eq buffer_size_def min_def)
  then show ?thesis
    by (simp add: buffer_average_def float_of_int_0 float_of_size_eq active_count_def)
qed

lemma visit_monitoring:
  assumes "current_state m = MonitoringState a c" and "length (sensor_buffer m) = buffer_size"
  shows "current_state (visit_state rs m) =
           (if fgt (buffer_average m) (float_lit 30 1)
            then AlertState ''Temperature High'' (float_lit 30 1)
            else MonitoringState (buffer_average m) (c + 1))"
  using assms(1) visit_monitoring_average [OF assms(2)]
  by (simp add: visit_state_def Let_def transition_to_def)

lemma process_monitoring:
  assumes "current_state m = MonitoringState a c" and "length (sensor_buffer m) = buffer_size"
  shows "current_state (process_readings rs m) =
           (if fgt (buffer_average (store_reading rs m)) (float_lit 30 1)
            then AlertState ''Temperature High'' (float_lit 30 1)
            else MonitoringState (buffer_average (store_reading rs m)) (c + 1))"
  using assms by (simp add: process_readings_def visit_monitoring)

lemma process_alert:
  "current_state m = AlertState msg th \<Longrightarrow>
   current_state (process_readings (r # rest) m) =
     (if flt r (float_lit 25 1) then CalibratingState (float_lit 225 10) 1 else AlertState msg th)"
  by (simp add: process_readings_def visit_state_def store_reading_def transition_to_def)

lemma process_calibrating:
  "current_state m = CalibratingState ref step \<Longrightarrow>
   current_state (process_readings rs m) =
     (if 5 <s step + 1 then IdleState else CalibratingState ref (step + 1))"
  by (simp add: process_readings_def visit_state_def transition_to_def Let_def)

text \<open>
  The reading just stored is one of the active entries, unless this was the store that
  wrapped the 32-bit index around to zero.
\<close>

lemma stored_reading_is_active:
  assumes "length (sensor_buffer m) = buffer_size" and "buffer_index m \<noteq> - 1"
  shows "active_buffer (store_reading (r # rest) m) ! (unat (buffer_index m) mod buffer_size) = r"
    and "unat (buffer_index m) mod buffer_size < length (active_buffer (store_reading (r # rest) m))"
proof -
  have nz: "1 + buffer_index m \<noteq> 0"
    using assms(2) by (simp add: add_eq_0_iff)
  have u: "unat (buffer_index m + 1) = Suc (unat (buffer_index m))"
    using unatSuc [OF nz] by (simp add: add.commute)
  show "unat (buffer_index m) mod buffer_size < length (active_buffer (store_reading (r # rest) m))"
    using assms(1)
    by (simp add: active_buffer_def active_count_eq store_reading_def u buffer_size_def)
  then show "active_buffer (store_reading (r # rest) m) ! (unat (buffer_index m) mod buffer_size) = r"
    using assms(1)
    by (simp add: active_buffer_def active_count_eq store_reading_def u buffer_size_def)
qed


text \<open>
  At that store, \<^verbatim>\<open>take(0)\<close> sums nothing and the divisor is zero: a Monitoring
  machine stays Monitoring, with the average NaN.
\<close>

lemma monitoring_at_wrap:
  assumes "current_state m = MonitoringState a c" and "length (sensor_buffer m) = buffer_size"
    and "buffer_index m = - 1"
  shows "active_buffer (store_reading (r # rest) m) = []"
    and "current_state (process_readings (r # rest) m) = MonitoringState NaN (c + 1)"
proof -
  show e: "active_buffer (store_reading (r # rest) m) = []"
    using assms(3) by (simp add: active_buffer_def active_count_eq store_reading_def)
  have "active_count (store_reading (r # rest) m) = 0"
    using assms(3) by (simp add: active_count_eq store_reading_def)
  with e have "buffer_average (store_reading (r # rest) m) = NaN"
    by (simp add: buffer_average_def float_lit_0 float_of_int_def round_float_def)
  then show "current_state (process_readings (r # rest) m) = MonitoringState NaN (c + 1)"
    using process_monitoring [OF assms(1,2), of "r # rest"] by (simp add: fgt_def)
qed


section \<open>The first source\<close>

text \<open>
  One \<^verbatim>\<open>update\<close> processes the reading of the first source: it goes to the slot
  \<^verbatim>\<open>buffer_index_ % size\<close> of the buffer, the index is incremented, and the
  transition logic runs on it.
\<close>

lemma update_feeds_first:
  assumes "read_sensors (manager_sensors rand) w = ([a, b, c], w')"
  shows "state_machine (fst (update rand mgr w)) = process_readings [a] (state_machine mgr)"
    and "sensor_buffer (state_machine (fst (update rand mgr w))) =
           (sensor_buffer (state_machine mgr))
             [unat (buffer_index (state_machine mgr)) mod buffer_size := a]"
    and "buffer_index (state_machine (fst (update rand mgr w))) =
           buffer_index (state_machine mgr) + 1"
proof -
  show e: "state_machine (fst (update rand mgr w)) = process_readings [a] (state_machine mgr)"
    by (simp add: update_def process_sensors_def assms process_readings_Cons [of a "[b, c]"])
  show "sensor_buffer (state_machine (fst (update rand mgr w))) =
           (sensor_buffer (state_machine mgr))
             [unat (buffer_index (state_machine mgr)) mod buffer_size := a]"
    by (simp add: e process_readings_buffer store_reading_def)
  show "buffer_index (state_machine (fst (update rand mgr w))) =
           buffer_index (state_machine mgr) + 1"
    by (simp add: e process_readings_buffer store_reading_def)
qed

text \<open>
  C8: on each \<^verbatim>\<open>update\<close> the reading of the first source, and only that one, is
  fed into the buffer and the transition logic of the state machine: the update is
  \<^verbatim>\<open>process_sensors\<close> on that reading alone, which stores it in the buffer and
  advances the index, and any number of updates is the run that feeds the first-source
  readings one by one. So two runs from the same manager whose first-source readings
  agree tick by tick end with the same state machine (state, buffer and index),
  whatever the second and third sources returned and whatever random number generators
  were behind them.
\<close>

theorem first_source_noninterference:
  "state_machine (fst (update rand1 mgr w1)) =
     process_readings [hd (fst (read_sensors (manager_sensors rand1) w1))] (state_machine mgr) \<and>
   sensor_buffer (state_machine (fst (update rand1 mgr w1))) =
     (sensor_buffer (state_machine mgr))
       [unat (buffer_index (state_machine mgr)) mod buffer_size :=
          hd (fst (read_sensors (manager_sensors rand1) w1))] \<and>
   buffer_index (state_machine (fst (update rand1 mgr w1))) =
     buffer_index (state_machine mgr) + 1 \<and>
   state_machine (fst (run_updates rand1 n mgr w1)) =
     feed (map hd (source_readings rand1 n w1)) (state_machine mgr) \<and>
   (map hd (source_readings rand1 n w1) = map hd (source_readings rand2 n w2) \<longrightarrow>
    state_machine (fst (run_updates rand1 n mgr w1)) =
    state_machine (fst (run_updates rand2 n mgr w2)))"
proof -
  obtain a b c w' where r: "read_sensors (manager_sensors rand1) w1 = ([a, b, c], w')"
    using read_manager_sensors [of rand1 w1] by auto
  have h: "hd (fst (read_sensors (manager_sensors rand1) w1)) = a"
    by (simp add: r)
  show ?thesis
    using update_feeds_first [OF r, of mgr]
    by (simp only: h run_updates_feed) simp
qed

theorem first_source_noninterference_witness:
  "map hd (source_readings scripted_rand 2 [5, 1, 2, 7, 3, 4]) =
   map hd (source_readings scripted_rand 2 [5, 90, 80, 7, 70, 60]) \<and>
   source_readings scripted_rand 2 [5, 1, 2, 7, 3, 4] \<noteq>
   source_readings scripted_rand 2 [5, 90, 80, 7, 70, 60] \<and>
   state_machine (fst (run_updates scripted_rand 2 StateMachineManager_init [5, 1, 2, 7, 3, 4])) =
   state_machine (fst (run_updates scripted_rand 2 StateMachineManager_init [5, 90, 80, 7, 70, 60])) \<and>
   state_machine (fst (run_updates scripted_rand 2 StateMachineManager_init [5, 1, 2, 7, 3, 4])) =
   feed (map hd (source_readings scripted_rand 2 [5, 1, 2, 7, 3, 4]))
     (state_machine StateMachineManager_init)"
proof -
  have h: "map hd (source_readings scripted_rand 2 [5, 1, 2, 7, 3, 4]) =
           map hd (source_readings scripted_rand 2 [5, 90, 80, 7, 70, 60])"
    by code_simp
  have d: "source_readings scripted_rand 2 [5, 1, 2, 7, 3, 4] \<noteq>
           source_readings scripted_rand 2 [5, 90, 80, 7, 70, 60]"
    by code_simp
  note t = first_source_noninterference [of scripted_rand StateMachineManager_init
      "[5, 1, 2, 7, 3, 4]" 2 scripted_rand "[5, 90, 80, 7, 70, 60]"]
  note fed = t [THEN conjunct2, THEN conjunct2, THEN conjunct2, THEN conjunct1]
  note same = t [THEN conjunct2, THEN conjunct2, THEN conjunct2, THEN conjunct2, THEN mp, OF h]
  show ?thesis
    by (rule conjI [OF h conjI [OF d conjI [OF same fed]]])
qed


section \<open>NaN readings\<close>

text \<open>
  After a NaN has been stored the average is NaN: the NaN is among the summed entries,
  or the index has wrapped to zero and the average is \<open>0.0 / 0\<close>.
\<close>

lemma buffer_average_NaN:
  assumes "length (sensor_buffer m) = buffer_size"
  shows "buffer_average (store_reading (NaN # rest) m) = NaN"
proof (cases "buffer_index m = - 1")
  case True
  then show ?thesis
    by (simp add: buffer_average_def active_buffer_def active_count_eq store_reading_def
        float_lit_0 float_of_int_def round_float_def)
next
  case False
  from stored_reading_is_active [OF assms False, of NaN rest]
  have "NaN \<in> set (active_buffer (store_reading (NaN # rest) m))"
    by (metis nth_mem)
  then show ?thesis
    by (simp add: buffer_average_def foldl_fadd_has_NaN)
qed

text \<open>
  C9: a NaN reading never fires a threshold comparison. Processing NaN leaves an Idle
  machine Idle (\<open>NaN > 20.0\<close> is false), leaves a Monitoring machine Monitoring, with the
  average NaN (\<open>NaN > 30.0\<close> is false), and leaves an Alert machine in its Alert state
  (\<open>NaN < 25.0\<close> is false). The Calibrating branch compares no reading.
\<close>

theorem nan_never_fires:
  assumes "length (sensor_buffer m) = buffer_size"
  shows "current_state (process_readings (NaN # rest) m) =
           (case current_state m of
              IdleState \<Rightarrow> IdleState
            | MonitoringState a c \<Rightarrow> MonitoringState NaN (c + 1)
            | AlertState msg th \<Rightarrow> AlertState msg th
            | CalibratingState ref step \<Rightarrow>
                if 5 <s step + 1 then IdleState else CalibratingState ref (step + 1))"
  using assms
  by (simp add: process_idle process_alert process_monitoring process_calibrating
      buffer_average_NaN fgt_def split: StateVariant.split)

theorem nan_never_fires_witness:
  "length (sensor_buffer StateMachine_init) = buffer_size \<and>
   current_state (process_readings [NaN] StateMachine_init) = IdleState \<and>
   current_state (process_readings [NaN] (feed [float_lit 21 1] StateMachine_init)) =
     MonitoringState NaN 2 \<and>
   current_state (process_readings [NaN]
      (transition_to (AlertState ''Temperature High'' (float_lit 30 1)) StateMachine_init)) =
     AlertState ''Temperature High'' (float_lit 30 1)"
proof -
  have h0: "length (sensor_buffer StateMachine_init) = buffer_size"
    by (simp add: StateMachine_init_def)
  have h1: "length (sensor_buffer (feed [float_lit 21 1] StateMachine_init)) = buffer_size"
    by code_simp
  have h2: "length (sensor_buffer
      (transition_to (AlertState ''Temperature High'' (float_lit 30 1)) StateMachine_init)) =
      buffer_size"
    by (simp add: StateMachine_init_def transition_to_def)
  have s0: "current_state StateMachine_init = IdleState"
    by (simp add: StateMachine_init_def)
  have s1: "current_state (feed [float_lit 21 1] StateMachine_init) =
            MonitoringState (float_lit 21 1) 1"
    by code_simp
  have s2: "current_state
      (transition_to (AlertState ''Temperature High'' (float_lit 30 1)) StateMachine_init) =
      AlertState ''Temperature High'' (float_lit 30 1)"
    by (simp add: transition_to_def)
  show ?thesis
    using h0 nan_never_fires [OF h0, of "[]"] nan_never_fires [OF h1, of "[]"]
      nan_never_fires [OF h2, of "[]"]
    by (simp add: s0 s1 s2)
qed


section \<open>The average field and the buffer\<close>

text \<open>
  C6, as stated: whenever the state is Monitoring after a processed reading, its
  average is the average of the buffer's active contents, also right after the step
  from Idle to Monitoring. After the readings 10.0 and 30.0 on a new machine the state
  is \<open>Monitoring {average_value = 30.0, sample_count = 1}\<close>, while the buffer holds both
  readings and their average is 20.0.
\<close>

theorem monitoring_average_counterexample:
  "current_state (feed [float_lit 10 1, float_lit 30 1] StateMachine_init) =
     MonitoringState (float_lit 30 1) 1 \<and>
   buffer_average (feed [float_lit 10 1, float_lit 30 1] StateMachine_init) = float_lit 20 1 \<and>
   float_lit 30 1 \<noteq> float_lit 20 1"
  by code_simp

text \<open>
  C6, amended: when the state is Monitoring after a processed reading, then either the
  state was Monitoring before, and the average field is the average recomputed from the
  buffer's current active contents (and the sample count one more than before); or the
  state was Idle before, and the average field is the reading itself with a sample count
  of 1, whatever else the buffer holds.
\<close>

theorem monitoring_average_origin:
  assumes "length (sensor_buffer m) = buffer_size"
    and "current_state (process_readings (r # rest) m) = MonitoringState a c"
  shows "case current_state m of
           MonitoringState a0 c0 \<Rightarrow>
             a = buffer_average (process_readings (r # rest) m) \<and> c = c0 + 1
         | IdleState \<Rightarrow> a = r \<and> c = 1
         | _ \<Rightarrow> False"
proof (cases "current_state m")
  case IdleState
  with assms(2) show ?thesis
    by (simp add: process_idle split: if_splits)
next
  case (MonitoringState a0 c0)
  with assms show ?thesis
    by (simp add: process_monitoring active_process_readings split: if_splits)
next
  case (AlertState msg th)
  with assms(2) show ?thesis
    by (simp add: process_alert split: if_splits)
next
  case (CalibratingState ref step)
  with assms(2) show ?thesis
    by (simp add: process_calibrating split: if_splits)
qed

theorem monitoring_average_origin_witness:
  "length (sensor_buffer (feed [float_lit 21 1] StateMachine_init)) = buffer_size \<and>
   current_state (process_readings [float_lit 22 1] (feed [float_lit 21 1] StateMachine_init)) =
     MonitoringState (float_lit 215 10) 2 \<and>
   float_lit 215 10 =
     buffer_average (process_readings [float_lit 22 1] (feed [float_lit 21 1] StateMachine_init)) \<and>
   length (sensor_buffer (feed [float_lit 10 1] StateMachine_init)) = buffer_size \<and>
   current_state (feed [float_lit 10 1] StateMachine_init) = IdleState \<and>
   current_state (process_readings [float_lit 30 1] (feed [float_lit 10 1] StateMachine_init)) =
     MonitoringState (float_lit 30 1) 1"
proof -
  have h1: "length (sensor_buffer (feed [float_lit 21 1] StateMachine_init)) = buffer_size"
    by code_simp
  have h2: "current_state
              (process_readings [float_lit 22 1] (feed [float_lit 21 1] StateMachine_init)) =
            MonitoringState (float_lit 215 10) 2"
    by code_simp
  have s: "current_state (feed [float_lit 21 1] StateMachine_init) =
           MonitoringState (float_lit 21 1) 1"
    by code_simp
  have k1: "length (sensor_buffer (feed [float_lit 10 1] StateMachine_init)) = buffer_size"
    by code_simp
  have k2: "current_state
              (process_readings [float_lit 30 1] (feed [float_lit 10 1] StateMachine_init)) =
            MonitoringState (float_lit 30 1) 1"
    by code_simp
  have t: "current_state (feed [float_lit 10 1] StateMachine_init) = IdleState"
    by code_simp
  show ?thesis
    using h1 h2 k1 k2 t monitoring_average_origin [OF h1 h2] monitoring_average_origin [OF k1 k2]
    by (simp add: s)
qed


section \<open>The ring buffer\<close>

lemma mod_distinct_near:
  assumes "(i::nat) < n" and "n < i + k"
  shows "i mod k \<noteq> n mod k"
proof
  assume "i mod k = n mod k"
  then have "n mod k = i mod k"
    by simp
  moreover have "i \<le> n"
    using assms(1) by simp
  ultimately have "k dvd n - i"
    by (simp add: mod_eq_dvd_iff_nat)
  moreover have "0 < n - i" "n - i < k"
    using assms by simp_all
  ultimately show False
    using nat_dvd_not_less by blast
qed

lemma mod_shift_window:
  assumes "(k::nat) \<le> n"
  shows "(n mod k + i) mod k = (n - k + i) mod k"
proof -
  have "(n mod k + i) mod k = (n + i) mod k"
    by (simp add: mod_add_left_eq)
  also have "n + i = (n - k + i) + k"
    using assms by simp
  also have "((n - k + i) + k) mod k = (n - k + i) mod k"
    by simp
  finally show ?thesis .
qed

lemma feed_snoc: "feed (xs @ [r]) m = process_readings [r] (feed xs m)"
  by (simp add: feed_def)

lemma feed_Nil [simp]: "feed [] m = m"
  by (simp add: feed_def)

lemma process_readings_length [simp]:
  "length (sensor_buffer (process_readings rs m)) = length (sensor_buffer m)"
  by (simp add: process_readings_buffer)

lemma feed_length [simp]: "length (sensor_buffer (feed xs m)) = length (sensor_buffer m)"
  by (induction xs rule: rev_induct) (simp_all add: feed_snoc)

lemma init_length [simp]: "length (sensor_buffer StateMachine_init) = buffer_size"
  by (simp add: StateMachine_init_def)

lemma feed_index: "buffer_index (feed xs m) = buffer_index m + word_of_nat (length xs)"
  by (induction xs rule: rev_induct)
    (simp_all add: feed_snoc process_readings_buffer store_reading_def)

lemma feed_init_index: "buffer_index (feed xs StateMachine_init) = word_of_nat (length xs)"
  by (simp add: feed_index) (simp add: StateMachine_init_def)

lemma unat_index_bounded:
  "n < 2 ^ 32 \<Longrightarrow> unat (word_of_nat n :: 32 word) = n"
  by (simp add: unat_of_nat)

lemma feed_buffer_slots:
  "length xs < 2 ^ 32 \<Longrightarrow> i < length xs \<Longrightarrow> length xs \<le> i + buffer_size \<Longrightarrow>
   sensor_buffer (feed xs StateMachine_init) ! (i mod buffer_size) = xs ! i"
proof (induction xs arbitrary: i rule: rev_induct)
  case Nil
  then show ?case by simp
next
  case (snoc x xs)
  let ?m = "feed xs StateMachine_init"
  have n: "length xs < 2 ^ 32"
    using snoc.prems(1) by simp
  have idx: "unat (buffer_index ?m) = length xs"
    by (simp add: feed_init_index unat_index_bounded [OF n])
  have buf: "sensor_buffer (feed (xs @ [x]) StateMachine_init) =
             (sensor_buffer ?m)[length xs mod buffer_size := x]"
    by (simp add: feed_snoc process_readings_buffer store_reading_def idx)
  show ?case
  proof (cases "i = length xs")
    case True
    then show ?thesis
      by (simp add: buf buffer_size_def)
  next
    case False
    then have i: "i < length xs"
      using snoc.prems(2) by simp
    have near: "length xs \<le> i + buffer_size"
      using snoc.prems(3) by simp
    have "i mod buffer_size \<noteq> length xs mod buffer_size"
    proof
      assume e: "i mod buffer_size = length xs mod buffer_size"
      have "length xs < i + buffer_size"
        using snoc.prems(3) by simp
      with i e show False
        using mod_distinct_near [of i "length xs" buffer_size] by simp
    qed
    then show ?thesis
      using i near by (simp add: buf nth_append snoc.IH [OF n i near])
  qed
qed

lemma active_first_pushes:
  assumes "length xs \<le> buffer_size"
  shows "active_buffer (feed xs StateMachine_init) = xs"
    and "active_count (feed xs StateMachine_init) = length xs"
proof -
  have n: "length xs < 2 ^ 32"
    using assms by (simp add: buffer_size_def)
  show c: "active_count (feed xs StateMachine_init) = length xs"
    using assms by (simp add: active_count_eq feed_init_index unat_index_bounded [OF n] buffer_size_def)
  show "active_buffer (feed xs StateMachine_init) = xs"
  proof (rule nth_equalityI)
    show "length (active_buffer (feed xs StateMachine_init)) = length xs"
      using assms by (simp add: active_buffer_def c)
  next
    fix i
    assume "i < length (active_buffer (feed xs StateMachine_init))"
    then have i: "i < length xs"
      by (simp add: active_buffer_def c)
    then have "sensor_buffer (feed xs StateMachine_init) ! (i mod buffer_size) = xs ! i"
      using assms by (intro feed_buffer_slots [OF n]) simp_all
    moreover have "i mod buffer_size = i"
      using i assms by simp
    ultimately show "active_buffer (feed xs StateMachine_init) ! i = xs ! i"
      using i by (simp add: active_buffer_def c)
  qed
qed

text \<open>
  C5, as stated: after \<open>N + k\<close> pushes the active contents are the most recent \<open>N\<close>
  pushes in arrival order. The eleventh push overwrites slot 0, and the active span is
  read in slot order: after the pushes 1.0, ..., 11.0 it starts with 11.0, and is not
  the list 2.0, ..., 11.0.
\<close>

theorem ring_buffer_order_counterexample:
  "active_buffer
     (feed [float_lit 1 1, float_lit 2 1, float_lit 3 1, float_lit 4 1, float_lit 5 1,
            float_lit 6 1, float_lit 7 1, float_lit 8 1, float_lit 9 1, float_lit 10 1,
            float_lit 11 1] StateMachine_init) =
     [float_lit 11 1, float_lit 2 1, float_lit 3 1, float_lit 4 1, float_lit 5 1,
      float_lit 6 1, float_lit 7 1, float_lit 8 1, float_lit 9 1, float_lit 10 1] \<and>
   active_buffer
     (feed [float_lit 1 1, float_lit 2 1, float_lit 3 1, float_lit 4 1, float_lit 5 1,
            float_lit 6 1, float_lit 7 1, float_lit 8 1, float_lit 9 1, float_lit 10 1,
            float_lit 11 1] StateMachine_init) \<noteq>
     [float_lit 2 1, float_lit 3 1, float_lit 4 1, float_lit 5 1,
      float_lit 6 1, float_lit 7 1, float_lit 8 1, float_lit 9 1, float_lit 10 1,
      float_lit 11 1]"
  by code_simp

text \<open>
  C5, amended: after \<open>n\<close> pushes into the buffer of capacity \<open>N = 10\<close>, with
  \<open>N \<le> n < 2^32\<close>, the active count is \<open>min n N\<close>, and the active contents are the
  most recent \<open>N\<close> pushes, each stored at its arrival index modulo \<open>N\<close>: read
  cyclically from slot \<open>n mod N\<close> they are those pushes in arrival order. The bound
  is the range of the 32-bit index.
\<close>

theorem ring_buffer_contents:
  assumes "buffer_size \<le> length xs" and "length xs < 2 ^ 32"
  shows "active_count (feed xs StateMachine_init) = min (length xs) buffer_size \<and>
         rotate (length xs mod buffer_size) (active_buffer (feed xs StateMachine_init)) =
           drop (length xs - buffer_size) xs"
proof -
  let ?m = "feed xs StateMachine_init"
  have c: "active_count ?m = buffer_size"
    using assms
    by (simp add: active_count_eq feed_init_index unat_index_bounded [OF assms(2)] buffer_size_def)
  have a: "active_buffer ?m = sensor_buffer ?m"
    by (simp add: active_buffer_def c)
  have "rotate (length xs mod buffer_size) (sensor_buffer ?m) = drop (length xs - buffer_size) xs"
  proof (rule nth_equalityI)
    show "length (rotate (length xs mod buffer_size) (sensor_buffer ?m)) =
          length (drop (length xs - buffer_size) xs)"
      using assms(1) by simp
  next
    fix i
    assume "i < length (rotate (length xs mod buffer_size) (sensor_buffer ?m))"
    then have i: "i < buffer_size"
      by simp
    let ?j = "length xs - buffer_size + i"
    have j: "?j < length xs" "length xs \<le> ?j + buffer_size"
      using assms(1) i by simp_all
    have "rotate (length xs mod buffer_size) (sensor_buffer ?m) ! i =
          sensor_buffer ?m ! ((length xs mod buffer_size + i) mod buffer_size)"
      using i by (simp add: nth_rotate add.commute)
    also have "(length xs mod buffer_size + i) mod buffer_size = ?j mod buffer_size"
      using assms(1) by (rule mod_shift_window)
    also have "sensor_buffer ?m ! (?j mod buffer_size) = xs ! ?j"
      by (rule feed_buffer_slots [OF assms(2) j])
    finally show "rotate (length xs mod buffer_size) (sensor_buffer ?m) ! i =
                  drop (length xs - buffer_size) xs ! i"
      using assms(1) by simp
  qed
  with a c assms(1) show ?thesis
    by simp
qed

theorem ring_buffer_contents_witness:
  "buffer_size \<le> length [float_lit 1 1, float_lit 2 1, float_lit 3 1, float_lit 4 1,
       float_lit 5 1, float_lit 6 1, float_lit 7 1, float_lit 8 1, float_lit 9 1,
       float_lit 10 1, float_lit 11 1, float_lit 12 1] \<and>
   length [float_lit 1 1, float_lit 2 1, float_lit 3 1, float_lit 4 1,
       float_lit 5 1, float_lit 6 1, float_lit 7 1, float_lit 8 1, float_lit 9 1,
       float_lit 10 1, float_lit 11 1, float_lit 12 1] < (2 ^ 32 :: nat) \<and>
   active_count (feed [float_lit 1 1, float_lit 2 1, float_lit 3 1, float_lit 4 1,
       float_lit 5 1, float_lit 6 1, float_lit 7 1, float_lit 8 1, float_lit 9 1,
       float_lit 10 1, float_lit 11 1, float_lit 12 1] StateMachine_init) = 10 \<and>
   rotate 2 (active_buffer (feed [float_lit 1 1, float_lit 2 1, float_lit 3 1, float_lit 4 1,
       float_lit 5 1, float_lit 6 1, float_lit 7 1, float_lit 8 1, float_lit 9 1,
       float_lit 10 1, float_lit 11 1, float_lit 12 1] StateMachine_init)) =
     [float_lit 3 1, float_lit 4 1,
       float_lit 5 1, float_lit 6 1, float_lit 7 1, float_lit 8 1, float_lit 9 1,
       float_lit 10 1, float_lit 11 1, float_lit 12 1]"
proof -
  let ?xs = "[float_lit 1 1, float_lit 2 1, float_lit 3 1, float_lit 4 1,
       float_lit 5 1, float_lit 6 1, float_lit 7 1, float_lit 8 1, float_lit 9 1,
       float_lit 10 1, float_lit 11 1, float_lit 12 1]"
  have h1: "buffer_size \<le> length ?xs"
    by (simp add: buffer_size_def)
  have h2: "length ?xs < 2 ^ 32"
    by simp
  show ?thesis
    using h1 h2 ring_buffer_contents [OF h1 h2] by (simp add: buffer_size_def)
qed

text \<open>After \<open>2^32\<close> stored readings the index is zero again, and no entry is active.\<close>

lemma index_wraps:
  "active_count (feed (replicate (2 ^ 32) r) StateMachine_init) = 0"
  by (simp add: active_count_eq feed_init_index)


section \<open>The Monitoring rule\<close>

text \<open>
  While the index is below \<open>2^32 - 1\<close>, a reading processed in the Monitoring state
  is among the active entries, and the new average is their sum divided by the active
  count; the machine goes to Alert if and only if that average is greater than 30.0,
  and otherwise stays Monitoring with the sample count incremented by one.
\<close>

lemma monitoring_rule_below_wrap:
  assumes "current_state m = MonitoringState a c" and "length (sensor_buffer m) = buffer_size"
    and "buffer_index m \<noteq> - 1"
  shows "current_state (process_readings (r # rest) m) =
           (if fgt (buffer_average (store_reading (r # rest) m)) (float_lit 30 1)
            then AlertState ''Temperature High'' (float_lit 30 1)
            else MonitoringState (buffer_average (store_reading (r # rest) m)) (c + 1))"
    and "r \<in> set (active_buffer (store_reading (r # rest) m))"
proof -
  show "current_state (process_readings (r # rest) m) =
           (if fgt (buffer_average (store_reading (r # rest) m)) (float_lit 30 1)
            then AlertState ''Temperature High'' (float_lit 30 1)
            else MonitoringState (buffer_average (store_reading (r # rest) m)) (c + 1))"
    using assms(1,2) by (rule process_monitoring)
  show "r \<in> set (active_buffer (store_reading (r # rest) m))"
    using stored_reading_is_active [OF assms(2,3), of r rest] by (metis nth_mem)
qed

text \<open>Readings that are not above 20.0 keep an Idle machine Idle.\<close>

lemma feed_Cons: "feed (r # rs) m = feed rs (process_readings [r] m)"
  by (simp add: feed_def)

lemma feed_below_threshold_idle:
  "\<not> fgt r (float_lit 20 1) \<Longrightarrow> current_state m = IdleState \<Longrightarrow>
   current_state (feed (replicate n r) m) = IdleState"
proof (induction n arbitrary: m)
  case 0
  then show ?case by simp
next
  case (Suc n)
  have "current_state (process_readings [r] m) = IdleState"
    using process_idle [OF Suc.prems(2), of r "[]"] Suc.prems(1) by simp
  then show ?case
    using Suc.IH [OF Suc.prems(1)] by (simp add: feed_Cons)
qed

lemma fgt_10_20: "\<not> fgt (float_lit 10 1) (float_lit 20 1)"
  by code_simp

lemma fgt_25_20: "fgt (float_lit 25 1) (float_lit 20 1)"
  by code_simp

lemma before_wrap:
  "current_state
     (feed (replicate 4294967294 (float_lit 10 1) @ [float_lit 25 1]) StateMachine_init) =
     MonitoringState (float_lit 25 1) 1"
  "buffer_index
     (feed (replicate 4294967294 (float_lit 10 1) @ [float_lit 25 1]) StateMachine_init) = - 1"
proof -
  have i: "current_state (feed (replicate 4294967294 (float_lit 10 1)) StateMachine_init) =
           IdleState"
    by (rule feed_below_threshold_idle [OF fgt_10_20]) (simp add: StateMachine_init_def)
  show "current_state
     (feed (replicate 4294967294 (float_lit 10 1) @ [float_lit 25 1]) StateMachine_init) =
     MonitoringState (float_lit 25 1) 1"
    using process_idle [OF i, of "float_lit 25 1" "[]"] fgt_25_20
    by (simp only: feed_snoc) simp
  show "buffer_index
     (feed (replicate 4294967294 (float_lit 10 1) @ [float_lit 25 1]) StateMachine_init) = - 1"
    by (simp only: feed_init_index length_append length_replicate list.size) simp
qed

text \<open>
  C4: every call that processes a reading while the state is Monitoring recomputes
  the average as the sum of the active entries, the reading just pushed among them,
  divided by the active count. The code does so at every call but the one that wraps
  the 32-bit index. After \<open>2^32 - 2\<close> readings of 10.0 and one of 25.0 a new machine is
  \<open>Monitoring {average_value = 25.0, sample_count = 1}\<close> with the index at
  \<open>2^32 - 1\<close>. Processing 22.0 then wraps the index to zero: no entry is active, the
  reading 22.0 is not among the summed entries, and the average is \<open>0.0 / 0\<close>, NaN.
\<close>

theorem monitoring_rule_wrap:
  "current_state
     (feed (replicate 4294967294 (float_lit 10 1) @ [float_lit 25 1]) StateMachine_init) =
     MonitoringState (float_lit 25 1) 1 \<and>
   buffer_index
     (feed (replicate 4294967294 (float_lit 10 1) @ [float_lit 25 1]) StateMachine_init) =
     4294967295 \<and>
   active_buffer
     (process_readings [float_lit 22 1]
        (feed (replicate 4294967294 (float_lit 10 1) @ [float_lit 25 1]) StateMachine_init)) =
     [] \<and>
   current_state
     (process_readings [float_lit 22 1]
        (feed (replicate 4294967294 (float_lit 10 1) @ [float_lit 25 1]) StateMachine_init)) =
     MonitoringState NaN 2"
proof -
  let ?m = "feed (replicate 4294967294 (float_lit 10 1) @ [float_lit 25 1]) StateMachine_init"
  have l: "length (sensor_buffer ?m) = buffer_size"
    by (simp only: feed_length init_length)
  note w = monitoring_at_wrap [OF before_wrap(1) l before_wrap(2), of "float_lit 22 1" "[]"]
  have "(- 1 :: 32 word) = 4294967295"
    by simp
  with w before_wrap show ?thesis
    by (simp only: active_process_readings) simp
qed


section \<open>One cycle through the states\<close>

lemma feed_average:
  assumes "length xs \<le> buffer_size"
  shows "buffer_average (feed xs StateMachine_init) = average_of xs"
  by (simp add: buffer_average_def average_of_def active_first_pushes [OF assms])

lemma feed_monitoring_step:
  assumes "current_state (feed xs StateMachine_init) = MonitoringState a c"
    and "length xs < buffer_size"
  shows "current_state (feed (xs @ [r]) StateMachine_init) =
           (if fgt (average_of (xs @ [r])) (float_lit 30 1)
            then AlertState ''Temperature High'' (float_lit 30 1)
            else MonitoringState (average_of (xs @ [r])) (c + 1))"
proof -
  have l: "length (sensor_buffer (feed xs StateMachine_init)) = buffer_size"
    by simp
  have "buffer_average (store_reading [r] (feed xs StateMachine_init)) =
        buffer_average (feed (xs @ [r]) StateMachine_init)"
    by (simp add: feed_snoc active_process_readings)
  also have "\<dots> = average_of (xs @ [r])"
    using assms(2) by (intro feed_average) simp
  finally show ?thesis
    using process_monitoring [OF assms(1) l, of "[r]"] by (simp add: feed_snoc)
qed

lemma state_trace_feed:
  "state_trace (r # rs) (feed xs m) =
     current_state (feed (xs @ [r]) m) # state_trace rs (feed (xs @ [r]) m)"
  by (simp add: feed_snoc Let_def)

lemma fgt_21_20: "fgt (float_lit 21 1) (float_lit 20 1)"
  by code_simp

lemma flt_24_25: "flt (float_lit 24 1) (float_lit 25 1)"
  by code_simp

lemma calibration_steps:
  "\<not> 5 <s (1 + 1 :: 32 word)" "\<not> 5 <s (2 + 1 :: 32 word)" "\<not> 5 <s (3 + 1 :: 32 word)"
  "\<not> 5 <s (4 + 1 :: 32 word)" "5 <s (5 + 1 :: 32 word)"
  by (simp_all add: word_sless_alt)

text \<open>
  C1: on a newly constructed machine (Idle, empty buffer) the reading 21.0 leads to
  Monitoring; four further readings that keep the average of all readings so far at or
  below 30.0 keep it Monitoring; a fifth reading that brings the average above 30.0
  leads to \<open>Alert {message = "Temperature High", threshold = 30.0}\<close>; the reading
  24.0 then leads to \<open>Calibrating {reference_value = 22.5, step = 1}\<close>; and five more
  readings, of any value, increment the step to 2, 3, 4, 5 and then, the step
  exceeding 5, lead back to Idle.
\<close>

theorem monotonic_cycle:
  assumes "\<not> fgt (average_of [float_lit 21 1, r1]) (float_lit 30 1)"
    and "\<not> fgt (average_of [float_lit 21 1, r1, r2]) (float_lit 30 1)"
    and "\<not> fgt (average_of [float_lit 21 1, r1, r2, r3]) (float_lit 30 1)"
    and "\<not> fgt (average_of [float_lit 21 1, r1, r2, r3, r4]) (float_lit 30 1)"
    and "fgt (average_of [float_lit 21 1, r1, r2, r3, r4, r5]) (float_lit 30 1)"
  shows "state_trace [float_lit 21 1, r1, r2, r3, r4, r5, float_lit 24 1, c1, c2, c3, c4, c5]
           StateMachine_init =
         [MonitoringState (float_lit 21 1) 1,
          MonitoringState (average_of [float_lit 21 1, r1]) 2,
          MonitoringState (average_of [float_lit 21 1, r1, r2]) 3,
          MonitoringState (average_of [float_lit 21 1, r1, r2, r3]) 4,
          MonitoringState (average_of [float_lit 21 1, r1, r2, r3, r4]) 5,
          AlertState ''Temperature High'' (float_lit 30 1),
          CalibratingState (float_lit 225 10) 1,
          CalibratingState (float_lit 225 10) 2,
          CalibratingState (float_lit 225 10) 3,
          CalibratingState (float_lit 225 10) 4,
          CalibratingState (float_lit 225 10) 5,
          IdleState]"
proof -
  let ?f = "\<lambda>xs. current_state (feed xs StateMachine_init)"
  let ?a = "float_lit 21 1"
  have s0: "?f [] = IdleState"
    by (simp add: StateMachine_init_def)
  have s1: "?f [?a] = MonitoringState ?a 1"
    using process_idle [OF s0, of ?a "[]"] fgt_21_20 by (simp add: feed_snoc [of "[]", simplified])
  have s2: "?f [?a, r1] = MonitoringState (average_of [?a, r1]) 2"
    using feed_monitoring_step [OF s1, of r1] assms(1) by (simp add: buffer_size_def)
  have s3: "?f [?a, r1, r2] = MonitoringState (average_of [?a, r1, r2]) 3"
    using feed_monitoring_step [OF s2, of r2] assms(2) by (simp add: buffer_size_def)
  have s4: "?f [?a, r1, r2, r3] = MonitoringState (average_of [?a, r1, r2, r3]) 4"
    using feed_monitoring_step [OF s3, of r3] assms(3) by (simp add: buffer_size_def)
  have s5: "?f [?a, r1, r2, r3, r4] = MonitoringState (average_of [?a, r1, r2, r3, r4]) 5"
    using feed_monitoring_step [OF s4, of r4] assms(4) by (simp add: buffer_size_def)
  have s6: "?f [?a, r1, r2, r3, r4, r5] = AlertState ''Temperature High'' (float_lit 30 1)"
    using feed_monitoring_step [OF s5, of r5] assms(5) by (simp add: buffer_size_def)
  have s7: "?f [?a, r1, r2, r3, r4, r5, float_lit 24 1] = CalibratingState (float_lit 225 10) 1"
    using process_alert [OF s6, of "float_lit 24 1" "[]"] flt_24_25
      feed_snoc [of "[?a, r1, r2, r3, r4, r5]" "float_lit 24 1" StateMachine_init]
    by simp
  have s8: "?f [?a, r1, r2, r3, r4, r5, float_lit 24 1, c1] = CalibratingState (float_lit 225 10) 2"
    using process_calibrating [OF s7, of "[c1]"] calibration_steps
      feed_snoc [of "[?a, r1, r2, r3, r4, r5, float_lit 24 1]" c1 StateMachine_init]
    by simp
  have s9: "?f [?a, r1, r2, r3, r4, r5, float_lit 24 1, c1, c2] =
            CalibratingState (float_lit 225 10) 3"
    using process_calibrating [OF s8, of "[c2]"] calibration_steps
      feed_snoc [of "[?a, r1, r2, r3, r4, r5, float_lit 24 1, c1]" c2 StateMachine_init]
    by simp
  have s10: "?f [?a, r1, r2, r3, r4, r5, float_lit 24 1, c1, c2, c3] =
             CalibratingState (float_lit 225 10) 4"
    using process_calibrating [OF s9, of "[c3]"] calibration_steps
      feed_snoc [of "[?a, r1, r2, r3, r4, r5, float_lit 24 1, c1, c2]" c3 StateMachine_init]
    by simp
  have s11: "?f [?a, r1, r2, r3, r4, r5, float_lit 24 1, c1, c2, c3, c4] =
             CalibratingState (float_lit 225 10) 5"
    using process_calibrating [OF s10, of "[c4]"] calibration_steps
      feed_snoc [of "[?a, r1, r2, r3, r4, r5, float_lit 24 1, c1, c2, c3]" c4 StateMachine_init]
    by simp
  have s12: "?f [?a, r1, r2, r3, r4, r5, float_lit 24 1, c1, c2, c3, c4, c5] = IdleState"
    using process_calibrating [OF s11, of "[c5]"] calibration_steps
      feed_snoc [of "[?a, r1, r2, r3, r4, r5, float_lit 24 1, c1, c2, c3, c4]" c5 StateMachine_init]
    by simp
  have "state_trace [?a, r1, r2, r3, r4, r5, float_lit 24 1, c1, c2, c3, c4, c5]
          (feed [] StateMachine_init) =
        [?f [?a], ?f [?a, r1], ?f [?a, r1, r2], ?f [?a, r1, r2, r3], ?f [?a, r1, r2, r3, r4],
         ?f [?a, r1, r2, r3, r4, r5], ?f [?a, r1, r2, r3, r4, r5, float_lit 24 1],
         ?f [?a, r1, r2, r3, r4, r5, float_lit 24 1, c1],
         ?f [?a, r1, r2, r3, r4, r5, float_lit 24 1, c1, c2],
         ?f [?a, r1, r2, r3, r4, r5, float_lit 24 1, c1, c2, c3],
         ?f [?a, r1, r2, r3, r4, r5, float_lit 24 1, c1, c2, c3, c4],
         ?f [?a, r1, r2, r3, r4, r5, float_lit 24 1, c1, c2, c3, c4, c5]]"
    by (simp only: state_trace_feed append.simps state_trace.simps(1))
  then show ?thesis
    by (simp only: s1 s2 s3 s4 s5 s6 s7 s8 s9 s10 s11 s12 feed_Nil)
qed

theorem monotonic_cycle_witness:
  "\<not> fgt (average_of [float_lit 21 1, float_lit 22 1]) (float_lit 30 1) \<and>
   \<not> fgt (average_of [float_lit 21 1, float_lit 22 1, float_lit 23 1]) (float_lit 30 1) \<and>
   \<not> fgt (average_of [float_lit 21 1, float_lit 22 1, float_lit 23 1, float_lit 24 1])
       (float_lit 30 1) \<and>
   \<not> fgt (average_of [float_lit 21 1, float_lit 22 1, float_lit 23 1, float_lit 24 1,
                        float_lit 25 1]) (float_lit 30 1) \<and>
   fgt (average_of [float_lit 21 1, float_lit 22 1, float_lit 23 1, float_lit 24 1,
                    float_lit 25 1, float_lit 100 1]) (float_lit 30 1) \<and>
   state_trace [float_lit 21 1, float_lit 22 1, float_lit 23 1, float_lit 24 1, float_lit 25 1,
                float_lit 100 1, float_lit 24 1, float_lit 235 10, float_lit 236 10,
                float_lit 237 10, float_lit 238 10, float_lit 239 10] StateMachine_init =
     [MonitoringState (float_lit 21 1) 1,
      MonitoringState (average_of [float_lit 21 1, float_lit 22 1]) 2,
      MonitoringState (average_of [float_lit 21 1, float_lit 22 1, float_lit 23 1]) 3,
      MonitoringState
        (average_of [float_lit 21 1, float_lit 22 1, float_lit 23 1, float_lit 24 1]) 4,
      MonitoringState
        (average_of [float_lit 21 1, float_lit 22 1, float_lit 23 1, float_lit 24 1,
                     float_lit 25 1]) 5,
      AlertState ''Temperature High'' (float_lit 30 1),
      CalibratingState (float_lit 225 10) 1,
      CalibratingState (float_lit 225 10) 2,
      CalibratingState (float_lit 225 10) 3,
      CalibratingState (float_lit 225 10) 4,
      CalibratingState (float_lit 225 10) 5,
      IdleState]"
proof -
  have h1: "\<not> fgt (average_of [float_lit 21 1, float_lit 22 1]) (float_lit 30 1)"
    by code_simp
  have h2: "\<not> fgt (average_of [float_lit 21 1, float_lit 22 1, float_lit 23 1])
              (float_lit 30 1)"
    by code_simp
  have h3: "\<not> fgt (average_of [float_lit 21 1, float_lit 22 1, float_lit 23 1, float_lit 24 1])
              (float_lit 30 1)"
    by code_simp
  have h4: "\<not> fgt (average_of [float_lit 21 1, float_lit 22 1, float_lit 23 1, float_lit 24 1,
                               float_lit 25 1]) (float_lit 30 1)"
    by code_simp
  have h5: "fgt (average_of [float_lit 21 1, float_lit 22 1, float_lit 23 1, float_lit 24 1,
                             float_lit 25 1, float_lit 100 1]) (float_lit 30 1)"
    by code_simp
  show ?thesis
    using h1 h2 h3 h4 h5
      monotonic_cycle [OF h1 h2 h3 h4 h5, of "float_lit 235 10" "float_lit 236 10"
        "float_lit 237 10" "float_lit 238 10" "float_lit 239 10"]
    by simp
qed

end
